theory Spec2Isabelle
  imports Main "HOL-Library.Sublist"
begin

section \<open>config.ts: configuration read from the command line\<close>

text \<open>
  Conventions of the embedding.
  \<^item> A JavaScript string is a \<^typ>\<open>string\<close>; text outside ASCII is held in UTF-8, so the
    localized scale labels of \<open>getUploadStrategy\<close> are written byte by byte.
  \<^item> A JavaScript number that the code only compares with and sets to integer literals is
    an \<^typ>\<open>int\<close>.
  \<^item> \<open>throw new Error(msg)\<close> is the value \<open>Inl (Error msg)\<close> of a sum type.
  \<^item> An object created by an object literal lives on a heap and is handed around by
    reference; the module-level variable \<open>config\<close> holds such a reference or \<open>null\<close>.
\<close>

subsection \<open>Data\<close>

record Config =
  baseUrl :: string
  token :: string
  batchSize :: int
  maxLinesPerBlob :: int
  textExtensions :: "string set"
  excludePatterns :: "string list"
  enableLog :: bool

record UploadStrategy =
  batchSize :: int
  concurrency :: int
  timeout :: int
  scaleName :: string

text \<open>The anonymous result type of \<open>parseArgs\<close>: every field is optional.\<close>

record ParsedArgs =
  baseUrl :: "string option"
  token :: "string option"
  enableLog :: "bool option"

datatype js_error = Error string

text \<open>References to \<open>Config\<close> objects are indices into the list of objects allocated so far.\<close>

type_synonym ref = nat

record module_state =
  heap :: "Config list"
  config :: "ref option"

text \<open>\<open>let config: Config | null = null\<close>, with nothing allocated yet.\<close>

definition initial_state :: module_state where
  "initial_state = \<lparr>heap = [], config = None\<rparr>"

subsection \<open>getUploadStrategy\<close>

text \<open>
  The four labels are the UTF-8 bytes of U+5C0F U+578B, U+4E2D U+578B, U+5927 U+578B and
  U+8D85 U+5927 U+578B.
\<close>

definition getUploadStrategy :: "int \<Rightarrow> UploadStrategy" where
  "getUploadStrategy blobCount =
     (if blobCount < 100 then
        \<lparr>UploadStrategy.batchSize = 10, concurrency = 1, timeout = 30000,
         scaleName = [CHR 0xE5, CHR 0xB0, CHR 0x8F, CHR 0xE5, CHR 0x9E, CHR 0x8B]\<rparr>
      else if blobCount < 500 then
        \<lparr>UploadStrategy.batchSize = 30, concurrency = 2, timeout = 45000,
         scaleName = [CHR 0xE4, CHR 0xB8, CHR 0xAD, CHR 0xE5, CHR 0x9E, CHR 0x8B]\<rparr>
      else if blobCount < 2000 then
        \<lparr>UploadStrategy.batchSize = 50, concurrency = 3, timeout = 60000,
         scaleName = [CHR 0xE5, CHR 0xA4, CHR 0xA7, CHR 0xE5, CHR 0x9E, CHR 0x8B]\<rparr>
      else
        \<lparr>UploadStrategy.batchSize = 70, concurrency = 4, timeout = 90000,
         scaleName = [CHR 0xE8, CHR 0xB6, CHR 0x85, CHR 0xE5, CHR 0xA4, CHR 0xA7,
                      CHR 0xE5, CHR 0x9E, CHR 0x8B]\<rparr>)"

subsection \<open>The default tables\<close>

definition DEFAULT_TEXT_EXTENSIONS :: "string set" where
  "DEFAULT_TEXT_EXTENSIONS = set
     [''.py'', ''.js'', ''.ts'', ''.jsx'', ''.tsx'',
      ''.java'', ''.go'', ''.rs'', ''.cpp'', ''.c'',
      ''.h'', ''.hpp'', ''.cs'', ''.rb'', ''.php'',
      ''.swift'', ''.kt'', ''.scala'', ''.clj'',
      ''.md'', ''.txt'', ''.json'', ''.yaml'', ''.yml'',
      ''.toml'', ''.xml'', ''.ini'', ''.conf'',
      ''.html'', ''.css'', ''.scss'', ''.sass'', ''.less'',
      ''.sql'', ''.sh'', ''.bash'', ''.ps1'', ''.bat'',
      ''.vue'', ''.svelte'']"

definition DEFAULT_EXCLUDE_PATTERNS :: "string list" where
  "DEFAULT_EXCLUDE_PATTERNS =
     [''.venv'', ''venv'', ''.env'', ''env'', ''node_modules'',
      ''.git'', ''.svn'', ''.hg'',
      ''__pycache__'', ''.pytest_cache'', ''.mypy_cache'',
      ''.tox'', ''.eggs'', ''*.egg-info'',
      ''dist'', ''build'', ''target'', ''out'',
      ''.idea'', ''.vscode'', ''.vs'',
      ''.DS_Store'', ''Thumbs.db'',
      ''*.pyc'', ''*.pyo'', ''*.pyd'', ''*.so'', ''*.dll'',
      ''.ace-tool'']"

text \<open>
  The two tables as the specification lists them (section 6, "Default data tables"), kept
  apart from the tables of the code so that the two can be compared.
\<close>

definition spec_text_extensions :: "string list" where
  "spec_text_extensions =
     [''.py'', ''.js'', ''.ts'', ''.jsx'', ''.tsx'', ''.java'', ''.go'', ''.rs'', ''.cpp'',
      ''.c'', ''.h'', ''.hpp'', ''.cs'', ''.rb'', ''.php'', ''.swift'', ''.kt'', ''.scala'',
      ''.clj'', ''.md'', ''.txt'', ''.json'', ''.yaml'', ''.yml'', ''.toml'', ''.xml'',
      ''.ini'', ''.conf'', ''.html'', ''.css'', ''.scss'', ''.sass'', ''.less'', ''.sql'',
      ''.sh'', ''.bash'', ''.ps1'', ''.bat'', ''.vue'', ''.svelte'']"

definition spec_exclude_patterns :: "string list" where
  "spec_exclude_patterns =
     [''.venv'', ''venv'', ''.env'', ''env'', ''node_modules'', ''.git'', ''.svn'', ''.hg'',
      ''__pycache__'', ''.pytest_cache'', ''.mypy_cache'', ''.tox'', ''.eggs'',
      ''*.egg-info'', ''dist'', ''build'', ''target'', ''out'', ''.idea'', ''.vscode'',
      ''.vs'', ''.DS_Store'', ''Thumbs.db'', ''*.pyc'', ''*.pyo'', ''*.pyd'', ''*.so'',
      ''*.dll'']"

subsection \<open>parseArgs\<close>

text \<open>
  The \<open>for\<close> loop of \<open>parseArgs\<close>, with its index: a flag that takes a value advances the
  index by two (the \<open>i++\<close> of the branch and the one of the loop header).
\<close>

function parseArgs_loop :: "string list \<Rightarrow> nat \<Rightarrow> ParsedArgs \<Rightarrow> ParsedArgs" where
  "parseArgs_loop args i result =
     (if i < length args then
        (if args ! i = ''--base-url'' \<and> i + 1 < length args then
           parseArgs_loop args (i + 2) (result\<lparr>ParsedArgs.baseUrl := Some (args ! (i + 1))\<rparr>)
         else if args ! i = ''--token'' \<and> i + 1 < length args then
           parseArgs_loop args (i + 2) (result\<lparr>ParsedArgs.token := Some (args ! (i + 1))\<rparr>)
         else if args ! i = ''--enable-log'' then
           parseArgs_loop args (i + 1) (result\<lparr>ParsedArgs.enableLog := Some True\<rparr>)
         else parseArgs_loop args (i + 1) result)
      else result)"
  by pat_completeness auto
termination
  by (relation "measure (\<lambda>(args, i, result). length args - i)") auto

declare parseArgs_loop.simps [simp del]

text \<open>\<open>process.argv.slice(2)\<close> drops the interpreter and the script; \<open>result\<close> starts as \<open>{}\<close>.\<close>

definition parseArgs :: "string list \<Rightarrow> ParsedArgs" where
  "parseArgs process_argv =
     parseArgs_loop (drop 2 process_argv) 0
       \<lparr>ParsedArgs.baseUrl = None, token = None, enableLog = None\<rparr>"

subsection \<open>initConfig and getConfig\<close>

definition startsWith :: "string \<Rightarrow> string \<Rightarrow> bool" where
  "startsWith s searchString = (take (length searchString) s = searchString)"

text \<open>
  \<open>s.replace(/\/$/, '')\<close>: the pattern is not global and \<open>$\<close> (no \<open>m\<close> flag) matches at the
  end of the input only, so the one match there can be is a final \<open>/\<close>.
\<close>

definition replace_trailing_slash :: "string \<Rightarrow> string" where
  "replace_trailing_slash s = (if s \<noteq> [] \<and> last s = CHR ''/'' then butlast s else s)"

text \<open>
  \<open>!args.baseUrl\<close> and \<open>!args.token\<close> hold for \<open>undefined\<close> and for the empty string. Both
  throws come before the assignment to \<open>config\<close>, so they leave the state as it was. The
  object literal allocates a new \<open>Config\<close>, whose reference is stored and returned.
\<close>

definition initConfig :: "string list \<Rightarrow> module_state \<Rightarrow> (js_error + ref) \<times> module_state" where
  "initConfig process_argv s =
     (let args = parseArgs process_argv in
      case ParsedArgs.baseUrl args of
        None \<Rightarrow> (Inl (Error ''Missing required argument: --base-url''), s)
      | Some url \<Rightarrow>
          if url = [] then (Inl (Error ''Missing required argument: --base-url''), s)
          else
            (case ParsedArgs.token args of
               None \<Rightarrow> (Inl (Error ''Missing required argument: --token''), s)
             | Some tok \<Rightarrow>
                 if tok = [] then (Inl (Error ''Missing required argument: --token''), s)
                 else
                   (let baseUrl1 =
                          (if \<not> startsWith url ''http://'' \<and> \<not> startsWith url ''https://''
                           then ''https://'' @ url else url);
                        baseUrl2 = replace_trailing_slash baseUrl1;
                        obj = \<lparr>Config.baseUrl = baseUrl2,
                               token = tok,
                               batchSize = 10,
                               maxLinesPerBlob = 800,
                               textExtensions = DEFAULT_TEXT_EXTENSIONS,
                               excludePatterns = DEFAULT_EXCLUDE_PATTERNS,
                               enableLog =
                                 (case ParsedArgs.enableLog args of
                                    None \<Rightarrow> False | Some b \<Rightarrow> b)\<rparr>;
                        r = length (heap s)
                    in (Inr r, s\<lparr>heap := heap s @ [obj], config := Some r\<rparr>))))"

definition getConfig :: "module_state \<Rightarrow> js_error + ref" where
  "getConfig s =
     (case config s of
        None \<Rightarrow> Inl (Error ''Config not initialized. Call initConfig() first.'')
      | Some r \<Rightarrow> Inr r)"

section \<open>mcpLogger.ts: log messages for the MCP client\<close>

text \<open>
  The \<open>Server\<close> class belongs to the MCP SDK, not to this repository. What the module uses
  of it is the method \<open>sendLoggingMessage\<close>, declared there to return a \<open>Promise<void>\<close>, so
  a server is modelled by that method and a promise by the way it ends: it stays pending
  for ever, it is fulfilled with a value, or it is rejected with an error.
\<close>

datatype LogLevel = debug | info | warning | error

datatype 'a Promise = Pending | Fulfilled 'a | Rejected js_error

record LoggingMessageParams =
  level :: LogLevel
  data :: string

record Server =
  sendLoggingMessage :: "LoggingMessageParams \<Rightarrow> unit Promise"

text \<open>
  \<open>p.catch(onRejected)\<close>: a new promise, fulfilled with the value of \<open>p\<close>, or with what the
  handler returns when \<open>p\<close> is rejected.
\<close>

definition promise_catch :: "'a Promise \<Rightarrow> (js_error \<Rightarrow> 'a) \<Rightarrow> 'a Promise" where
  "promise_catch p onRejected =
     (case p of
        Pending \<Rightarrow> Pending
      | Fulfilled v \<Rightarrow> Fulfilled v
      | Rejected e \<Rightarrow> Fulfilled (onRejected e))"

text \<open>The state of the module is the variable \<open>mcpServer\<close>, \<open>null\<close> at first.\<close>

definition initMcpLogger :: "Server \<Rightarrow> Server option \<Rightarrow> Server option" where
  "initMcpLogger server mcpServer = Some server"

text \<open>
  A call of \<open>sendMcpLog\<close> gives three things: how the call itself ends (it returns
  \<open>undefined\<close> or it throws), the promise it leaves behind without awaiting it, if any, and
  the variable \<open>mcpServer\<close> after the call.
\<close>

definition sendMcpLog ::
    "LogLevel \<Rightarrow> string \<Rightarrow> Server option \<Rightarrow> (js_error + unit) \<times> unit Promise option \<times> Server option" where
  "sendMcpLog lvl message mcpServer =
     (case mcpServer of
        None \<Rightarrow> (Inr (), None, mcpServer)
      | Some server \<Rightarrow>
          (Inr (),
           Some (promise_catch (sendLoggingMessage server \<lparr>level = lvl, data = message\<rparr>)
                   (\<lambda>_. ())),
           mcpServer))"

section \<open>Auxiliary facts\<close>

subsection \<open>The loop of parseArgs\<close>

text \<open>One turn of the loop, and the loop once the index has left the list.\<close>

lemma parseArgs_loop_unfold:
  "i < length args \<Longrightarrow>
   parseArgs_loop args i result =
     (if args ! i = ''--base-url'' \<and> i + 1 < length args then
        parseArgs_loop args (i + 2) (result\<lparr>ParsedArgs.baseUrl := Some (args ! (i + 1))\<rparr>)
      else if args ! i = ''--token'' \<and> i + 1 < length args then
        parseArgs_loop args (i + 2) (result\<lparr>ParsedArgs.token := Some (args ! (i + 1))\<rparr>)
      else if args ! i = ''--enable-log'' then
        parseArgs_loop args (i + 1) (result\<lparr>ParsedArgs.enableLog := Some True\<rparr>)
      else parseArgs_loop args (i + 1) result)"
  by (subst parseArgs_loop.simps) (simp only: if_True)

lemma parseArgs_loop_done: "\<not> i < length args \<Longrightarrow> parseArgs_loop args i result = result"
  by (subst parseArgs_loop.simps) (simp only: if_False)

text \<open>
  The loop never looks behind its index, so a token in front of the index can be dropped.
  With this the loop can be read token by token from the front of the list.
\<close>

lemma parseArgs_loop_Cons:
  "parseArgs_loop (x # args) (Suc i) result = parseArgs_loop args i result"
proof (induction args i result rule: parseArgs_loop.induct)
  case (1 args i result)
  show ?case
  proof (cases "i < length args")
    case False
    then show ?thesis
      using parseArgs_loop_done [of i args result]
        parseArgs_loop_done [of "Suc i" "x # args" result]
      by simp
  next
    case True
    then have S: "Suc i < length (x # args)"
      by simp
    have n0: "(x # args) ! Suc i = args ! i" and n1: "(x # args) ! (Suc i + 1) = args ! (i + 1)"
      and l1: "Suc i + 1 < length (x # args) \<longleftrightarrow> i + 1 < length args"
      and a1: "Suc i + 1 = Suc (i + 1)" and a2: "Suc i + 2 = Suc (i + 2)"
      by simp_all
    have n1': "(x # args) ! Suc (i + 1) = args ! (i + 1)"
      and l1': "Suc (i + 1) < length (x # args) \<longleftrightarrow> i + 1 < length args"
      by simp_all
    note ih = "1.IH" [OF True]
    note unf = parseArgs_loop_unfold [OF S] parseArgs_loop_unfold [OF True]
    show ?thesis
    proof (cases "args ! i = ''--base-url'' \<and> i + 1 < length args")
      case c1: True
      then have e1: "(args ! i = ''--base-url'' \<and> i + 1 < length args) = True"
        by simp
      show ?thesis
        unfolding unf n0 n1 l1 a1 a2 n1' l1' e1 if_True
        by (rule ih(1) [OF c1])
    next
      case c1: False
      then have e1: "(args ! i = ''--base-url'' \<and> i + 1 < length args) = False"
        by simp
      show ?thesis
      proof (cases "args ! i = ''--token'' \<and> i + 1 < length args")
        case c2: True
        then have e2: "(args ! i = ''--token'' \<and> i + 1 < length args) = True"
          by simp
        show ?thesis
          unfolding unf n0 n1 l1 a1 a2 n1' l1' e1 e2 if_True if_False
          by (rule ih(2) [OF c1 c2])
      next
        case c2: False
        then have e2: "(args ! i = ''--token'' \<and> i + 1 < length args) = False"
          by simp
        show ?thesis
        proof (cases "args ! i = ''--enable-log''")
          case c3: True
          then have e3: "(args ! i = ''--enable-log'') = True"
            by simp
          show ?thesis
            unfolding unf n0 n1 l1 a1 a2 n1' l1' e1 e2 e3 if_True if_False
            by (rule ih(3) [OF c1 c2 c3])
        next
          case c3: False
          then have e3: "(args ! i = ''--enable-log'') = False"
            by simp
          show ?thesis
            unfolding unf n0 n1 l1 a1 a2 n1' l1' e1 e2 e3 if_True if_False
            by (rule ih(4) [OF c1 c2 c3])
        qed
      qed
    qed
  qed
qed


lemma parseArgs_loop_Nil: "parseArgs_loop [] 0 result = result"
  by (rule parseArgs_loop_done) simp

lemma parseArgs_loop_baseUrl:
  "parseArgs_loop (''--base-url'' # v # rest) 0 result =
     parseArgs_loop rest 0 (result\<lparr>ParsedArgs.baseUrl := Some v\<rparr>)"
proof -
  have "parseArgs_loop (''--base-url'' # v # rest) 0 result =
      parseArgs_loop (''--base-url'' # v # rest) (Suc (Suc 0))
        (result\<lparr>ParsedArgs.baseUrl := Some v\<rparr>)"
    by (subst parseArgs_loop_unfold) simp_all
  then show ?thesis
    by (simp only: parseArgs_loop_Cons)
qed

lemma parseArgs_loop_token:
  "parseArgs_loop (''--token'' # v # rest) 0 result =
     parseArgs_loop rest 0 (result\<lparr>ParsedArgs.token := Some v\<rparr>)"
proof -
  have "parseArgs_loop (''--token'' # v # rest) 0 result =
      parseArgs_loop (''--token'' # v # rest) (Suc (Suc 0))
        (result\<lparr>ParsedArgs.token := Some v\<rparr>)"
    by (subst parseArgs_loop_unfold) simp_all
  then show ?thesis
    by (simp only: parseArgs_loop_Cons)
qed

lemma parseArgs_loop_enableLog:
  "parseArgs_loop (''--enable-log'' # rest) 0 result =
     parseArgs_loop rest 0 (result\<lparr>ParsedArgs.enableLog := Some True\<rparr>)"
proof -
  have "parseArgs_loop (''--enable-log'' # rest) 0 result =
      parseArgs_loop (''--enable-log'' # rest) (Suc 0)
        (result\<lparr>ParsedArgs.enableLog := Some True\<rparr>)"
    by (subst parseArgs_loop_unfold) simp_all
  then show ?thesis
    by (simp only: parseArgs_loop_Cons)
qed

lemma parseArgs_loop_other:
  assumes "a \<noteq> ''--base-url''" and "a \<noteq> ''--token''" and "a \<noteq> ''--enable-log''"
  shows "parseArgs_loop (a # rest) 0 result = parseArgs_loop rest 0 result"
proof -
  have "parseArgs_loop (a # rest) 0 result = parseArgs_loop (a # rest) (Suc 0) result"
    using assms by (subst parseArgs_loop_unfold) simp_all
  then show ?thesis
    by (simp only: parseArgs_loop_Cons)
qed

lemma parseArgs_loop_last:
  assumes "a \<noteq> ''--enable-log''"
  shows "parseArgs_loop [a] 0 result = result"
proof -
  have "parseArgs_loop [a] 0 result = parseArgs_loop [a] (Suc 0) result"
    using assms by (subst parseArgs_loop_unfold) simp_all
  then show ?thesis
    by (simp only: parseArgs_loop_Cons parseArgs_loop_Nil)
qed

text \<open>A field whose flag does not occur among the arguments keeps its value.\<close>

lemma parseArgs_loop_baseUrl_absent:
  assumes "''--base-url'' \<notin> set args"
  shows "ParsedArgs.baseUrl (parseArgs_loop args i result) = ParsedArgs.baseUrl result"
  using assms
proof (induction args i result rule: parseArgs_loop.induct)
  case (1 args i result)
  show ?case
  proof (cases "i < length args")
    case False
    then show ?thesis
      using parseArgs_loop_done [of i args result] by simp
  next
    case True
    then have ne: "args ! i \<noteq> ''--base-url''"
      using "1.prems" nth_mem [of i args] by metis
    show ?thesis
    proof (cases "args ! i = ''--token'' \<and> i + 1 < length args")
      case c: True
      have "parseArgs_loop args i result =
          parseArgs_loop args (i + 2) (result\<lparr>ParsedArgs.token := Some (args ! (i + 1))\<rparr>)"
        using c ne by (subst parseArgs_loop_unfold [OF True]) simp
      moreover have "ParsedArgs.baseUrl (parseArgs_loop args (i + 2)
            (result\<lparr>ParsedArgs.token := Some (args ! (i + 1))\<rparr>)) =
          ParsedArgs.baseUrl (result\<lparr>ParsedArgs.token := Some (args ! (i + 1))\<rparr>)"
        using c ne "1.IH"(2) [OF True] "1.prems" by simp
      ultimately show ?thesis
        by simp
    next
      case c: False
      show ?thesis
      proof (cases "args ! i = ''--enable-log''")
        case c3: True
        have "parseArgs_loop args i result =
            parseArgs_loop args (i + 1) (result\<lparr>ParsedArgs.enableLog := Some True\<rparr>)"
          using c c3 ne by (subst parseArgs_loop_unfold [OF True]) auto
        moreover have "ParsedArgs.baseUrl (parseArgs_loop args (i + 1)
              (result\<lparr>ParsedArgs.enableLog := Some True\<rparr>)) =
            ParsedArgs.baseUrl (result\<lparr>ParsedArgs.enableLog := Some True\<rparr>)"
          using c c3 ne "1.IH"(3) [OF True] "1.prems" by auto
        ultimately show ?thesis
          by simp
      next
        case c3: False
        have "parseArgs_loop args i result = parseArgs_loop args (i + 1) result"
          using c c3 ne by (subst parseArgs_loop_unfold [OF True]) auto
        moreover have "ParsedArgs.baseUrl (parseArgs_loop args (i + 1) result) = ParsedArgs.baseUrl result"
          using c c3 ne "1.IH"(4) [OF True] "1.prems" by auto
        ultimately show ?thesis
          by simp
      qed
    qed
  qed
qed

lemma parseArgs_loop_token_absent:
  assumes "''--token'' \<notin> set args"
  shows "ParsedArgs.token (parseArgs_loop args i result) = ParsedArgs.token result"
  using assms
proof (induction args i result rule: parseArgs_loop.induct)
  case (1 args i result)
  show ?case
  proof (cases "i < length args")
    case False
    then show ?thesis
      using parseArgs_loop_done [of i args result] by simp
  next
    case True
    then have ne: "args ! i \<noteq> ''--token''"
      using "1.prems" nth_mem [of i args] by metis
    show ?thesis
    proof (cases "args ! i = ''--base-url'' \<and> i + 1 < length args")
      case c: True
      have "parseArgs_loop args i result =
          parseArgs_loop args (i + 2) (result\<lparr>ParsedArgs.baseUrl := Some (args ! (i + 1))\<rparr>)"
        using c ne by (subst parseArgs_loop_unfold [OF True]) simp
      moreover have "ParsedArgs.token (parseArgs_loop args (i + 2)
            (result\<lparr>ParsedArgs.baseUrl := Some (args ! (i + 1))\<rparr>)) =
          ParsedArgs.token (result\<lparr>ParsedArgs.baseUrl := Some (args ! (i + 1))\<rparr>)"
        using c ne "1.IH"(1) [OF True] "1.prems" by simp
      ultimately show ?thesis
        by simp
    next
      case c: False
      show ?thesis
      proof (cases "args ! i = ''--enable-log''")
        case c3: True
        have "parseArgs_loop args i result =
            parseArgs_loop args (i + 1) (result\<lparr>ParsedArgs.enableLog := Some True\<rparr>)"
          using c c3 ne by (subst parseArgs_loop_unfold [OF True]) auto
        moreover have "ParsedArgs.token (parseArgs_loop args (i + 1)
              (result\<lparr>ParsedArgs.enableLog := Some True\<rparr>)) =
            ParsedArgs.token (result\<lparr>ParsedArgs.enableLog := Some True\<rparr>)"
          using c c3 ne "1.IH"(3) [OF True] "1.prems" by auto
        ultimately show ?thesis
          by simp
      next
        case c3: False
        have "parseArgs_loop args i result = parseArgs_loop args (i + 1) result"
          using c c3 ne by (subst parseArgs_loop_unfold [OF True]) auto
        moreover have "ParsedArgs.token (parseArgs_loop args (i + 1) result) = ParsedArgs.token result"
          using c c3 ne "1.IH"(4) [OF True] "1.prems" by auto
        ultimately show ?thesis
          by simp
      qed
    qed
  qed
qed

lemma parseArgs_baseUrl_absent:
  "''--base-url'' \<notin> set (drop 2 process_argv) \<Longrightarrow> ParsedArgs.baseUrl (parseArgs process_argv) = None"
  by (simp add: parseArgs_def parseArgs_loop_baseUrl_absent)

lemma parseArgs_token_absent:
  "''--token'' \<notin> set (drop 2 process_argv) \<Longrightarrow> ParsedArgs.token (parseArgs process_argv) = None"
  by (simp add: parseArgs_def parseArgs_loop_token_absent)

subsection \<open>Strings\<close>

text \<open>The two string operations of \<open>initConfig\<close> in terms of the library's prefix and suffix.\<close>

lemma startsWith_prefix: "startsWith s p \<longleftrightarrow> prefix p s"
  unfolding startsWith_def prefix_def
  by (metis append_eq_conv_conj)

lemma replace_trailing_slash_suffix:
  "replace_trailing_slash s = (if suffix ''/'' s then butlast s else s)"
  unfolding replace_trailing_slash_def suffix_def
  by (cases s rule: rev_cases) auto

lemma suffix_slash_butlast:
  "suffix ''/'' u \<Longrightarrow> suffix ''/'' (butlast u) \<longleftrightarrow> suffix ''//'' u"
  by (cases u rule: rev_cases) (auto simp: suffix_def)

lemma suffix_slash_replace:
  "suffix ''/'' (replace_trailing_slash u) \<longleftrightarrow> suffix ''//'' u"
proof (cases "suffix ''/'' u")
  case True
  then show ?thesis
    by (simp add: replace_trailing_slash_suffix suffix_slash_butlast)
next
  case False
  moreover have "\<not> suffix ''//'' u"
    using False by (auto simp: suffix_def)
  ultimately show ?thesis
    by (simp add: replace_trailing_slash_suffix)
qed

lemma suffix2_append:
  "suffix ''//'' (p @ v) \<longleftrightarrow> suffix ''//'' v \<or> (v = ''/'' \<and> suffix ''/'' p) \<or> (v = [] \<and> suffix ''//'' p)"
proof (cases v rule: rev_cases)
  case Nil
  then show ?thesis by (auto simp: suffix_def)
next
  case (snoc v' c)
  note outer = this
  show ?thesis
  proof (cases v' rule: rev_cases)
    case Nil
    then show ?thesis using outer by (auto simp: suffix_def)
  next
    case (snoc v'' d)
    then show ?thesis using outer by (auto simp: suffix_def)
  qed
qed

lemma prefix_replace_trailing_slash:
  assumes "prefix p u" and "u \<noteq> p"
  shows "prefix p (replace_trailing_slash u)"
proof -
  from assms obtain w where u: "u = p @ w" and w: "w \<noteq> []"
    by (auto simp: prefix_def)
  then have "butlast u = p @ butlast w"
    by (simp add: butlast_append)
  then show ?thesis
    using u by (simp add: replace_trailing_slash_suffix)
qed

lemma replace_trailing_slash_nonempty:
  "length u \<ge> 2 \<Longrightarrow> replace_trailing_slash u \<noteq> []"
  by (cases u rule: rev_cases) (auto simp: replace_trailing_slash_def)

lemma normalized_nonempty:
  assumes "v \<noteq> []"
  shows "replace_trailing_slash
     (if prefix ''http://'' v \<or> prefix ''https://'' v then v else ''https://'' @ v) \<noteq> []"
proof (rule replace_trailing_slash_nonempty)
  show "2 \<le> length (if prefix ''http://'' v \<or> prefix ''https://'' v then v else ''https://'' @ v)"
    by (auto simp: prefix_def)
qed

lemma normalized_suffix:
  assumes "v \<noteq> []"
  shows "suffix ''/'' (replace_trailing_slash
     (if prefix ''http://'' v \<or> prefix ''https://'' v then v else ''https://'' @ v))
     \<longleftrightarrow> suffix ''//'' v \<or> v = ''/''"
proof (cases "prefix ''http://'' v \<or> prefix ''https://'' v")
  case True
  then have "v \<noteq> ''/''"
    by auto
  then show ?thesis
    using True by (simp add: suffix_slash_replace)
next
  case False
  have "suffix ''//'' (''https://'' @ v) \<longleftrightarrow> suffix ''//'' v \<or> v = ''/''"
    using assms suffix2_append [of "''https://''" v] by (simp add: suffix_to_prefix)
  then show ?thesis
    using False by (simp add: suffix_slash_replace)
qed

lemma normalized_prefix:
  assumes "v \<noteq> ''http://''" and "v \<noteq> ''https://''" and "v \<noteq> []"
  shows "prefix ''http://'' (replace_trailing_slash
           (if prefix ''http://'' v \<or> prefix ''https://'' v then v else ''https://'' @ v))
       \<or> prefix ''https://'' (replace_trailing_slash
           (if prefix ''http://'' v \<or> prefix ''https://'' v then v else ''https://'' @ v))"
proof (cases "prefix ''http://'' v")
  case True
  then show ?thesis
    using assms(1) prefix_replace_trailing_slash [of "''http://''" v] by simp
next
  case False
  note no_http = this
  show ?thesis
  proof (cases "prefix ''https://'' v")
    case True
    then show ?thesis
      using assms(2) prefix_replace_trailing_slash [of "''https://''" v] by simp
  next
    case False
    have "prefix ''https://'' (replace_trailing_slash (''https://'' @ v))"
      using assms(3) by (intro prefix_replace_trailing_slash) simp_all
    then show ?thesis
      using False no_http by simp
  qed
qed

subsection \<open>The outcomes of initConfig and getConfig\<close>

lemma initConfig_success:
  assumes "ParsedArgs.baseUrl (parseArgs process_argv) = Some url" and "url \<noteq> []"
    and "ParsedArgs.token (parseArgs process_argv) = Some tok" and "tok \<noteq> []"
  shows "initConfig process_argv s =
     (Inr (length (heap s)),
      s\<lparr>heap := heap s @
           [\<lparr>Config.baseUrl =
                replace_trailing_slash
                  (if \<not> startsWith url ''http://'' \<and> \<not> startsWith url ''https://''
                   then ''https://'' @ url else url),
              token = tok,
              batchSize = 10,
              maxLinesPerBlob = 800,
              textExtensions = DEFAULT_TEXT_EXTENSIONS,
              excludePatterns = DEFAULT_EXCLUDE_PATTERNS,
              enableLog =
                (case ParsedArgs.enableLog (parseArgs process_argv) of
                   None \<Rightarrow> False | Some b \<Rightarrow> b)\<rparr>],
         config := Some (length (heap s))\<rparr>)"
  using assms by (simp add: initConfig_def Let_def)

lemma initConfig_no_baseUrl:
  assumes "ParsedArgs.baseUrl (parseArgs process_argv) = None
         \<or> ParsedArgs.baseUrl (parseArgs process_argv) = Some []"
  shows "initConfig process_argv s = (Inl (Error ''Missing required argument: --base-url''), s)"
  using assms by (auto simp: initConfig_def Let_def)

lemma initConfig_no_token:
  assumes "ParsedArgs.baseUrl (parseArgs process_argv) = Some url" and "url \<noteq> []"
    and "ParsedArgs.token (parseArgs process_argv) = None
       \<or> ParsedArgs.token (parseArgs process_argv) = Some []"
  shows "initConfig process_argv s = (Inl (Error ''Missing required argument: --token''), s)"
  using assms by (auto simp: initConfig_def Let_def)

lemma initConfig_Inr_parsed:
  assumes "initConfig process_argv s = (Inr r, s')"
  shows "\<exists>url tok. ParsedArgs.baseUrl (parseArgs process_argv) = Some url \<and> url \<noteq> [] \<and>
           ParsedArgs.token (parseArgs process_argv) = Some tok \<and> tok \<noteq> []"
proof (cases "ParsedArgs.baseUrl (parseArgs process_argv)")
  case None
  then show ?thesis
    using assms initConfig_no_baseUrl [of process_argv s] by simp
next
  case (Some url)
  note url = this
  show ?thesis
  proof (cases "url = []")
    case True
    then show ?thesis
      using assms url initConfig_no_baseUrl [of process_argv s] by simp
  next
    case False
    note nonempty = this
    show ?thesis
    proof (cases "ParsedArgs.token (parseArgs process_argv)")
      case None
      then show ?thesis
        using assms initConfig_no_token [OF url nonempty, of s] by simp
    next
      case (Some tok)
      then show ?thesis
        using assms url nonempty initConfig_no_token [OF url nonempty, of s] by (cases "tok = []") simp_all
    qed
  qed
qed

lemma initConfig_Inl_state:
  assumes "initConfig process_argv s = (Inl e, s')"
  shows "s' = s"
  using assms
  by (auto simp: initConfig_def Let_def split: option.splits if_splits)

lemma initConfig_success_baseUrl:
  assumes "ParsedArgs.baseUrl (parseArgs process_argv) = Some v" and "v \<noteq> []"
    and "ParsedArgs.token (parseArgs process_argv) = Some t" and "t \<noteq> []"
  shows "\<exists>r s'. initConfig process_argv s = (Inr r, s') \<and> r < length (heap s') \<and>
     Config.baseUrl (heap s' ! r) =
       replace_trailing_slash
         (if prefix ''http://'' v \<or> prefix ''https://'' v then v else ''https://'' @ v)"
  using initConfig_success [OF assms, of s] by (simp add: startsWith_prefix)

lemma initConfig_Inr_state:
  assumes "initConfig process_argv s = (Inr r, s')"
  shows "r = length (heap s) \<and> length (heap s') = Suc (length (heap s)) \<and> config s' = Some r \<and>
         take (length (heap s)) (heap s') = heap s"
proof -
  from initConfig_Inr_parsed [OF assms] obtain url tok
    where "ParsedArgs.baseUrl (parseArgs process_argv) = Some url" "url \<noteq> []"
      "ParsedArgs.token (parseArgs process_argv) = Some tok" "tok \<noteq> []"
    by blast
  from initConfig_success [OF this, of s] assms show ?thesis
    by auto
qed

lemma initConfig_Inr_fields:
  assumes "initConfig process_argv s = (Inr r, s')"
  shows "r < length (heap s') \<and>
     Config.batchSize (heap s' ! r) = 10 \<and> maxLinesPerBlob (heap s' ! r) = 800 \<and>
     textExtensions (heap s' ! r) = DEFAULT_TEXT_EXTENSIONS \<and>
     excludePatterns (heap s' ! r) = DEFAULT_EXCLUDE_PATTERNS"
proof -
  from initConfig_Inr_parsed [OF assms] obtain url tok
    where "ParsedArgs.baseUrl (parseArgs process_argv) = Some url" "url \<noteq> []"
      "ParsedArgs.token (parseArgs process_argv) = Some tok" "tok \<noteq> []"
    by blast
  from initConfig_success [OF this, of s] assms show ?thesis
    by auto
qed

lemma initConfig_result_independent:
  "fst (initConfig process_argv s) = Inl e \<longleftrightarrow> fst (initConfig process_argv t) = Inl e"
  by (auto simp: initConfig_def Let_def split: option.splits if_splits)

lemma initConfig_object_independent:
  assumes "initConfig process_argv s = (Inr r, s')" and "initConfig process_argv t = (Inr q, t')"
  shows "heap s' ! r = heap t' ! q"
proof -
  from initConfig_Inr_parsed [OF assms(1)] obtain url tok
    where p: "ParsedArgs.baseUrl (parseArgs process_argv) = Some url" "url \<noteq> []"
      "ParsedArgs.token (parseArgs process_argv) = Some tok" "tok \<noteq> []"
    by blast
  from initConfig_success [OF p, of s] initConfig_success [OF p, of t] assms show ?thesis
    by auto
qed

lemma getConfig_None:
  "config s = None \<Longrightarrow> getConfig s = Inl (Error ''Config not initialized. Call initConfig() first.'')"
  by (simp add: getConfig_def)

lemma DEFAULT_TEXT_EXTENSIONS_spec: "DEFAULT_TEXT_EXTENSIONS = set spec_text_extensions"
  by (simp only: DEFAULT_TEXT_EXTENSIONS_def spec_text_extensions_def)

lemma DEFAULT_EXCLUDE_PATTERNS_spec:
  "DEFAULT_EXCLUDE_PATTERNS = spec_exclude_patterns @ [''.ace-tool'']"
  by (simp add: DEFAULT_EXCLUDE_PATTERNS_def spec_exclude_patterns_def)

section \<open>The upload strategy\<close>

text \<open>
  C1. For every integer \<open>blobCount\<close>, zero and negative ones included, \<open>getUploadStrategy\<close>
  returns the tuple of the four-tier table: below 100 it is (10, 1, 30000, small), from 100
  and below 500 it is (30, 2, 45000, medium), from 500 and below 2000 it is
  (50, 3, 60000, large), from 2000 on it is (70, 4, 90000, extra-large), the labels being
  the localized ones of the source. The boundary inputs 99/100, 499/500 and 1999/2000 land
  on these sides, and a count that is zero or negative is in the first tier.
\<close>

theorem getUploadStrategy_table:
  "(n < 100 \<longrightarrow> getUploadStrategy n =
      \<lparr>UploadStrategy.batchSize = 10, concurrency = 1, timeout = 30000,
       scaleName = [CHR 0xE5, CHR 0xB0, CHR 0x8F, CHR 0xE5, CHR 0x9E, CHR 0x8B]\<rparr>) \<and>
   (100 \<le> n \<and> n < 500 \<longrightarrow> getUploadStrategy n =
      \<lparr>UploadStrategy.batchSize = 30, concurrency = 2, timeout = 45000,
       scaleName = [CHR 0xE4, CHR 0xB8, CHR 0xAD, CHR 0xE5, CHR 0x9E, CHR 0x8B]\<rparr>) \<and>
   (500 \<le> n \<and> n < 2000 \<longrightarrow> getUploadStrategy n =
      \<lparr>UploadStrategy.batchSize = 50, concurrency = 3, timeout = 60000,
       scaleName = [CHR 0xE5, CHR 0xA4, CHR 0xA7, CHR 0xE5, CHR 0x9E, CHR 0x8B]\<rparr>) \<and>
   (2000 \<le> n \<longrightarrow> getUploadStrategy n =
      \<lparr>UploadStrategy.batchSize = 70, concurrency = 4, timeout = 90000,
       scaleName = [CHR 0xE8, CHR 0xB6, CHR 0x85, CHR 0xE5, CHR 0xA4, CHR 0xA7,
                    CHR 0xE5, CHR 0x9E, CHR 0x8B]\<rparr>) \<and>
   (n \<le> 0 \<longrightarrow> getUploadStrategy n = getUploadStrategy 99) \<and>
   map (\<lambda>k. (UploadStrategy.batchSize (getUploadStrategy k), concurrency (getUploadStrategy k),
              timeout (getUploadStrategy k)))
       [99, 100, 499, 500, 1999, 2000] =
     [(10, 1, 30000), (30, 2, 45000), (30, 2, 45000), (50, 3, 60000), (50, 3, 60000),
      (70, 4, 90000)]"
  by (simp add: getUploadStrategy_def)

text \<open>
  The table at one input of each tier: a negative count, the boundaries 100 and 2000, and
  1999 just below the last boundary.
\<close>

theorem getUploadStrategy_table_witness:
  "(-5 < (100::int) \<and> (-5::int) \<le> 0 \<and>
      UploadStrategy.batchSize (getUploadStrategy (-5)) = 10 \<and>
      getUploadStrategy (-5) = getUploadStrategy 99) \<and>
   ((100::int) \<le> 100 \<and> (100::int) < 500 \<and> concurrency (getUploadStrategy 100) = 2) \<and>
   ((500::int) \<le> 1999 \<and> (1999::int) < 2000 \<and> timeout (getUploadStrategy 1999) = 60000) \<and>
   ((2000::int) \<le> 2000 \<and> UploadStrategy.batchSize (getUploadStrategy 2000) = 70)"
proof -
  have neg: "(-5::int) < 100" "(-5::int) \<le> 0"
    by simp_all
  from getUploadStrategy_table [of "-5"] neg(1)
  have "getUploadStrategy (-5) =
      \<lparr>UploadStrategy.batchSize = 10, concurrency = 1, timeout = 30000,
       scaleName = [CHR 0xE5, CHR 0xB0, CHR 0x8F, CHR 0xE5, CHR 0x9E, CHR 0x8B]\<rparr>"
    by blast
  then have "UploadStrategy.batchSize (getUploadStrategy (-5)) = 10"
    by simp
  moreover from getUploadStrategy_table [of "-5"] neg(2)
  have "getUploadStrategy (-5) = getUploadStrategy 99"
    by blast
  moreover have "concurrency (getUploadStrategy 100) = 2"
    using getUploadStrategy_table [of 100] by simp
  moreover have "timeout (getUploadStrategy 1999) = 60000"
    using getUploadStrategy_table [of 1999] by simp
  moreover have "UploadStrategy.batchSize (getUploadStrategy 2000) = 70"
    using getUploadStrategy_table [of 2000] by simp
  ultimately show ?thesis
    by simp
qed

section \<open>Argument parsing\<close>

text \<open>
  C6. Parsing looks for the three tokens \<open>--base-url\<close>, \<open>--token\<close> and \<open>--enable-log\<close> by
  exact string match. Any other token is skipped, and nothing in the loop can fail. A flag
  that takes a value consumes the token after it whatever that token is; when no token
  follows, the flag is skipped like any other token. So the arguments
  \<open>--token --enable-log\<close> set the token to the string \<open>--enable-log\<close> and do not enable
  logging.
\<close>

theorem parseArgs_tokens:
  "(a \<notin> {''--base-url'', ''--token'', ''--enable-log''} \<longrightarrow>
      parseArgs_loop (a # rest) 0 result = parseArgs_loop rest 0 result) \<and>
   parseArgs_loop (''--base-url'' # v # rest) 0 result =
     parseArgs_loop rest 0 (result\<lparr>ParsedArgs.baseUrl := Some v\<rparr>) \<and>
   parseArgs_loop (''--token'' # v # rest) 0 result =
     parseArgs_loop rest 0 (result\<lparr>ParsedArgs.token := Some v\<rparr>) \<and>
   parseArgs_loop (''--enable-log'' # rest) 0 result =
     parseArgs_loop rest 0 (result\<lparr>ParsedArgs.enableLog := Some True\<rparr>) \<and>
   parseArgs_loop [''--base-url''] 0 result = result \<and>
   parseArgs_loop [''--token''] 0 result = result \<and>
   parseArgs_loop [] 0 result = result \<and>
   parseArgs (interpreter # script # [''--token'', ''--enable-log'']) =
     \<lparr>ParsedArgs.baseUrl = None, token = Some ''--enable-log'', enableLog = None\<rparr>"
proof (intro conjI impI)
  assume "a \<notin> {''--base-url'', ''--token'', ''--enable-log''}"
  then show "parseArgs_loop (a # rest) 0 result = parseArgs_loop rest 0 result"
    by (intro parseArgs_loop_other) simp_all
next
  show "parseArgs (interpreter # script # [''--token'', ''--enable-log'']) =
     \<lparr>ParsedArgs.baseUrl = None, token = Some ''--enable-log'', enableLog = None\<rparr>"
    by (simp add: parseArgs_def parseArgs_loop_token parseArgs_loop_Nil)
qed (simp_all only: parseArgs_loop_baseUrl parseArgs_loop_token parseArgs_loop_enableLog
      parseArgs_loop_Nil, simp_all add: parseArgs_loop_last)

text \<open>
  A command line with tokens that only resemble the flags, a \<open>--token\<close> whose value is
  itself a flag, and a \<open>--base-url\<close> with nothing after it.
\<close>

theorem parseArgs_tokens_witness:
  "''--verbose'' \<notin> {''--base-url'', ''--token'', ''--enable-log''} \<and>
   parseArgs [''node'', ''index.js'', ''--verbose'', ''--token=abc'', ''--Token'', ''x'', ''--token'',
              ''--base-url'', ''--enable-log'', ''--base-url''] =
     \<lparr>ParsedArgs.baseUrl = None, token = Some ''--base-url'', enableLog = Some True\<rparr>"
proof -
  have "parseArgs [''node'', ''index.js'', ''--verbose'', ''--token=abc'', ''--Token'', ''x'', ''--token'',
              ''--base-url'', ''--enable-log'', ''--base-url''] =
     parseArgs_loop [''--token'', ''--base-url'', ''--enable-log'', ''--base-url''] 0
       \<lparr>ParsedArgs.baseUrl = None, token = None, enableLog = None\<rparr>"
    using parseArgs_tokens [of "''--verbose''"] parseArgs_tokens [of "''--token=abc''"]
      parseArgs_tokens [of "''--Token''"] parseArgs_tokens [of "''x''"]
    by (simp add: parseArgs_def)
  also have "\<dots> = \<lparr>ParsedArgs.baseUrl = None, token = Some ''--base-url'', enableLog = Some True\<rparr>"
    using parseArgs_tokens [of "''--verbose''"]
    by simp
  finally show ?thesis
    by simp
qed

section \<open>Normalization of the base URL\<close>

text \<open>
  C2, as amended. For every command line whose parse gives \<open>--base-url\<close> a non-empty
  value \<open>v\<close> and \<open>--token\<close> a non-empty value, \<open>initConfig\<close> succeeds and the base URL of the
  new \<open>Config\<close> is \<open>v\<close>, with \<open>https://\<close> in front of it unless it starts with \<open>http://\<close> or
  \<open>https://\<close>, and then without its last character if that is a \<open>/\<close>; one slash at most
  is removed.
\<close>

theorem initConfig_normalizes_baseUrl:
  assumes "ParsedArgs.baseUrl (parseArgs process_argv) = Some v" and "v \<noteq> []"
    and "ParsedArgs.token (parseArgs process_argv) = Some t" and "t \<noteq> []"
  shows "\<exists>r s'. initConfig process_argv s = (Inr r, s') \<and> r < length (heap s') \<and>
     Config.baseUrl (heap s' ! r) =
       (let u = (if prefix ''http://'' v \<or> prefix ''https://'' v then v else ''https://'' @ v)
        in if suffix ''/'' u then butlast u else u)"
  using initConfig_success_baseUrl [OF assms, of s]
  by (simp add: replace_trailing_slash_suffix Let_def)

text \<open>
  The two examples of the specification, \<open>example.com\<close> and \<open>https://example.com/\<close>, and a
  value with two final slashes, of which one stays.
\<close>

theorem initConfig_normalizes_baseUrl_witness:
  "(\<exists>r s'. initConfig [''node'', ''index.js'', ''--base-url'', ''example.com'', ''--token'', ''abc'']
              initial_state = (Inr r, s') \<and>
           r < length (heap s') \<and> Config.baseUrl (heap s' ! r) = ''https://example.com'') \<and>
   (\<exists>r s'. initConfig [''node'', ''index.js'', ''--base-url'', ''https://example.com/'', ''--token'', ''abc'']
              initial_state = (Inr r, s') \<and>
           r < length (heap s') \<and> Config.baseUrl (heap s' ! r) = ''https://example.com'') \<and>
   (\<exists>r s'. initConfig [''node'', ''index.js'', ''--token'', ''abc'', ''--base-url'', ''http://h//'']
              initial_state = (Inr r, s') \<and>
           r < length (heap s') \<and> Config.baseUrl (heap s' ! r) = ''http://h/'')"
proof -
  have p1: "parseArgs [''node'', ''index.js'', ''--base-url'', ''example.com'', ''--token'', ''abc''] =
      \<lparr>ParsedArgs.baseUrl = Some ''example.com'', token = Some ''abc'', enableLog = None\<rparr>"
    by (simp add: parseArgs_def parseArgs_loop.simps)
  have p2: "parseArgs [''node'', ''index.js'', ''--base-url'', ''https://example.com/'', ''--token'', ''abc''] =
      \<lparr>ParsedArgs.baseUrl = Some ''https://example.com/'', token = Some ''abc'', enableLog = None\<rparr>"
    by (simp add: parseArgs_def parseArgs_loop.simps)
  have p3: "parseArgs [''node'', ''index.js'', ''--token'', ''abc'', ''--base-url'', ''http://h//''] =
      \<lparr>ParsedArgs.baseUrl = Some ''http://h//'', token = Some ''abc'', enableLog = None\<rparr>"
    by (simp add: parseArgs_def parseArgs_loop.simps)
  show ?thesis
    using initConfig_normalizes_baseUrl
        [of "[''node'', ''index.js'', ''--base-url'', ''example.com'', ''--token'', ''abc'']"
            "''example.com''" "''abc''" initial_state]
      initConfig_normalizes_baseUrl
        [of "[''node'', ''index.js'', ''--base-url'', ''https://example.com/'', ''--token'', ''abc'']"
            "''https://example.com/''" "''abc''" initial_state]
      initConfig_normalizes_baseUrl
        [of "[''node'', ''index.js'', ''--token'', ''abc'', ''--base-url'', ''http://h//'']"
            "''http://h//''" "''abc''" initial_state]
    by (simp add: p1 p2 p3 suffix_to_prefix)
qed

text \<open>
  C2 as it is written asks nothing of the value of \<open>--base-url\<close>. With the empty string
  after \<open>--base-url\<close> and a non-empty token the call does not normalize anything: it
  throws.
\<close>

theorem initConfig_empty_baseUrl_counterexample:
  "ParsedArgs.baseUrl
     (parseArgs [''node'', ''index.js'', ''--base-url'', '''', ''--token'', ''abc'']) = Some '''' \<and>
   ParsedArgs.token
     (parseArgs [''node'', ''index.js'', ''--base-url'', '''', ''--token'', ''abc'']) = Some ''abc'' \<and>
   initConfig [''node'', ''index.js'', ''--base-url'', '''', ''--token'', ''abc''] initial_state =
     (Inl (Error ''Missing required argument: --base-url''), initial_state)"
  by (simp add: initConfig_def parseArgs_def parseArgs_loop.simps)

text \<open>
  C3, as amended. After every successful \<open>initConfig\<close> the base URL of the new \<open>Config\<close> is
  not empty. It ends with \<open>/\<close> exactly when the value \<open>v\<close> given for \<open>--base-url\<close> ends with
  \<open>//\<close> or is \<open>/\<close> itself, since one slash only is removed. It starts with \<open>http://\<close> or
  \<open>https://\<close> whenever \<open>v\<close> is more than such a scheme alone.
\<close>

theorem initConfig_baseUrl_shape:
  assumes "initConfig process_argv s = (Inr r, s')"
  shows "\<exists>v. ParsedArgs.baseUrl (parseArgs process_argv) = Some v \<and> r < length (heap s') \<and>
     Config.baseUrl (heap s' ! r) \<noteq> [] \<and>
     (suffix ''/'' (Config.baseUrl (heap s' ! r)) \<longleftrightarrow> suffix ''//'' v \<or> v = ''/'') \<and>
     (v \<noteq> ''http://'' \<and> v \<noteq> ''https://'' \<longrightarrow>
        prefix ''http://'' (Config.baseUrl (heap s' ! r)) \<or>
        prefix ''https://'' (Config.baseUrl (heap s' ! r)))"
proof -
  from initConfig_Inr_parsed [OF assms] obtain v t
    where v: "ParsedArgs.baseUrl (parseArgs process_argv) = Some v" "v \<noteq> []"
      and t: "ParsedArgs.token (parseArgs process_argv) = Some t" "t \<noteq> []"
    by blast
  from initConfig_success_baseUrl [OF v t, of s] assms
  have r: "r < length (heap s')"
    and url: "Config.baseUrl (heap s' ! r) = replace_trailing_slash
        (if prefix ''http://'' v \<or> prefix ''https://'' v then v else ''https://'' @ v)"
    by auto
  show ?thesis
    using v(1) r normalized_nonempty [OF v(2)] normalized_suffix [OF v(2)]
      normalized_prefix [of v] v(2)
    unfolding url by blast
qed

text \<open>
  A host with a port and one final slash: the result has the scheme and no final slash.
\<close>

theorem initConfig_baseUrl_shape_witness:
  "fst (initConfig [''node'', ''index.js'', ''--base-url'', ''localhost:8080/'', ''--token'', ''abc'']
          initial_state) = Inr 0 \<and>
   Config.baseUrl (heap (snd (initConfig
       [''node'', ''index.js'', ''--base-url'', ''localhost:8080/'', ''--token'', ''abc'']
       initial_state)) ! 0) \<noteq> [] \<and>
   \<not> suffix ''/'' (Config.baseUrl (heap (snd (initConfig
       [''node'', ''index.js'', ''--base-url'', ''localhost:8080/'', ''--token'', ''abc'']
       initial_state)) ! 0)) \<and>
   prefix ''https://'' (Config.baseUrl (heap (snd (initConfig
       [''node'', ''index.js'', ''--base-url'', ''localhost:8080/'', ''--token'', ''abc'']
       initial_state)) ! 0))"
proof -
  let ?argv = "[''node'', ''index.js'', ''--base-url'', ''localhost:8080/'', ''--token'', ''abc'']"
  have p: "parseArgs ?argv =
      \<lparr>ParsedArgs.baseUrl = Some ''localhost:8080/'', token = Some ''abc'', enableLog = None\<rparr>"
    by (simp add: parseArgs_def parseArgs_loop.simps)
  have ok: "fst (initConfig ?argv initial_state) = Inr 0"
    by (simp add: initConfig_def p Let_def initial_state_def)
  then have run: "initConfig ?argv initial_state = (Inr 0, snd (initConfig ?argv initial_state))"
    by (simp add: prod_eq_iff)
  have "\<not> prefix ''http://'' (Config.baseUrl (heap (snd (initConfig ?argv initial_state)) ! 0))"
    by (simp add: initConfig_def p Let_def initial_state_def startsWith_def
        replace_trailing_slash_def)
  then show ?thesis
    using initConfig_baseUrl_shape [OF run] ok by (simp add: p suffix_to_prefix)
qed

text \<open>
  C3 as it is written fails twice. The value \<open>a//\<close> gives \<open>https://a/\<close>, which ends with a
  slash; the value \<open>https://\<close> gives \<open>https:/\<close>, which starts with neither scheme.
\<close>

theorem initConfig_baseUrl_invariant_counterexample:
  "fst (initConfig [''node'', ''index.js'', ''--base-url'', ''a//'', ''--token'', ''abc''] initial_state)
     = Inr 0 \<and>
   Config.baseUrl (heap (snd (initConfig
       [''node'', ''index.js'', ''--base-url'', ''a//'', ''--token'', ''abc''] initial_state)) ! 0)
     = ''https://a/'' \<and>
   suffix ''/'' (Config.baseUrl (heap (snd (initConfig
       [''node'', ''index.js'', ''--base-url'', ''a//'', ''--token'', ''abc''] initial_state)) ! 0)) \<and>
   fst (initConfig [''node'', ''index.js'', ''--base-url'', ''https://'', ''--token'', ''abc''] initial_state)
     = Inr 0 \<and>
   Config.baseUrl (heap (snd (initConfig
       [''node'', ''index.js'', ''--base-url'', ''https://'', ''--token'', ''abc''] initial_state)) ! 0)
     = ''https:/'' \<and>
   \<not> prefix ''http://'' (Config.baseUrl (heap (snd (initConfig
       [''node'', ''index.js'', ''--base-url'', ''https://'', ''--token'', ''abc''] initial_state)) ! 0)) \<and>
   \<not> prefix ''https://'' (Config.baseUrl (heap (snd (initConfig
       [''node'', ''index.js'', ''--base-url'', ''https://'', ''--token'', ''abc''] initial_state)) ! 0))"
  by (simp add: initConfig_def parseArgs_def parseArgs_loop.simps startsWith_def
      replace_trailing_slash_def initial_state_def Let_def suffix_to_prefix)

section \<open>The fixed fields of a Config\<close>

text \<open>
  C8. Whatever the command line, the \<open>Config\<close> of a successful \<open>initConfig\<close> has
  \<open>batchSize\<close> 10 and \<open>maxLinesPerBlob\<close> 800. Its text extensions are the table of the
  specification, with \<open>.py\<close>, \<open>.rs\<close> and \<open>.vue\<close> among them, and its exclude patterns are the
  table of the specification followed by \<open>.ace-tool\<close>, with \<open>node_modules\<close>, \<open>.git\<close> and
  \<open>dist\<close> among them.
\<close>

theorem initConfig_defaults:
  assumes "initConfig process_argv s = (Inr r, s')"
  shows "r < length (heap s') \<and>
     Config.batchSize (heap s' ! r) = 10 \<and> maxLinesPerBlob (heap s' ! r) = 800 \<and>
     textExtensions (heap s' ! r) = set spec_text_extensions \<and>
     excludePatterns (heap s' ! r) = spec_exclude_patterns @ [''.ace-tool''] \<and>
     ''.py'' \<in> textExtensions (heap s' ! r) \<and>
     ''.rs'' \<in> textExtensions (heap s' ! r) \<and>
     ''.vue'' \<in> textExtensions (heap s' ! r) \<and>
     ''node_modules'' \<in> set (excludePatterns (heap s' ! r)) \<and>
     ''.git'' \<in> set (excludePatterns (heap s' ! r)) \<and>
     ''dist'' \<in> set (excludePatterns (heap s' ! r))"
proof -
  note f = initConfig_Inr_fields [OF assms]
  have "''.py'' \<in> DEFAULT_TEXT_EXTENSIONS" "''.rs'' \<in> DEFAULT_TEXT_EXTENSIONS"
    "''.vue'' \<in> DEFAULT_TEXT_EXTENSIONS"
    by (simp_all add: DEFAULT_TEXT_EXTENSIONS_def)
  moreover have "''node_modules'' \<in> set DEFAULT_EXCLUDE_PATTERNS"
    "''.git'' \<in> set DEFAULT_EXCLUDE_PATTERNS" "''dist'' \<in> set DEFAULT_EXCLUDE_PATTERNS"
    by (simp_all add: DEFAULT_EXCLUDE_PATTERNS_def)
  ultimately show ?thesis
    using f DEFAULT_TEXT_EXTENSIONS_spec DEFAULT_EXCLUDE_PATTERNS_spec by simp
qed

text \<open>
  A command line that also enables logging.
\<close>

theorem initConfig_defaults_witness:
  "fst (initConfig [''node'', ''index.js'', ''--enable-log'', ''--base-url'', ''example.com'', ''--token'', ''abc'']
          initial_state) = Inr 0 \<and>
   Config.batchSize (heap (snd (initConfig
       [''node'', ''index.js'', ''--enable-log'', ''--base-url'', ''example.com'', ''--token'', ''abc'']
       initial_state)) ! 0) = 10 \<and>
   maxLinesPerBlob (heap (snd (initConfig
       [''node'', ''index.js'', ''--enable-log'', ''--base-url'', ''example.com'', ''--token'', ''abc'']
       initial_state)) ! 0) = 800 \<and>
   ''.rs'' \<in> textExtensions (heap (snd (initConfig
       [''node'', ''index.js'', ''--enable-log'', ''--base-url'', ''example.com'', ''--token'', ''abc'']
       initial_state)) ! 0) \<and>
   ''.git'' \<in> set (excludePatterns (heap (snd (initConfig
       [''node'', ''index.js'', ''--enable-log'', ''--base-url'', ''example.com'', ''--token'', ''abc'']
       initial_state)) ! 0))"
proof -
  let ?argv = "[''node'', ''index.js'', ''--enable-log'', ''--base-url'', ''example.com'', ''--token'', ''abc'']"
  have p: "parseArgs ?argv =
      \<lparr>ParsedArgs.baseUrl = Some ''example.com'', token = Some ''abc'', enableLog = Some True\<rparr>"
    by (simp add: parseArgs_def parseArgs_loop.simps)
  have ok: "fst (initConfig ?argv initial_state) = Inr 0"
    by (simp add: initConfig_def p Let_def initial_state_def)
  then have run: "initConfig ?argv initial_state = (Inr 0, snd (initConfig ?argv initial_state))"
    by (simp add: prod_eq_iff)
  show ?thesis
    using initConfig_defaults [OF run] ok by blast
qed

section \<open>Missing arguments\<close>

text \<open>
  C4. A command line without the token \<open>--base-url\<close> has no value for it, and likewise for
  \<open>--token\<close>. When the parse has no value for \<open>--base-url\<close>, \<open>initConfig\<close> throws the error
  whose message names \<open>--base-url\<close>; when it has none for \<open>--token\<close>, it throws the error
  that names \<open>--token\<close>, or the one that names \<open>--base-url\<close> if that is missing too. A call
  that throws allocates no \<open>Config\<close> and leaves \<open>config\<close> as it was, so if it was \<open>null\<close>
  a later \<open>getConfig\<close> still throws. Nothing else is asked of the token: every non-empty
  one is stored as it is.
\<close>

theorem initConfig_missing_argument:
  "(''--base-url'' \<notin> set (drop 2 process_argv) \<longrightarrow>
      ParsedArgs.baseUrl (parseArgs process_argv) = None) \<and>
   (''--token'' \<notin> set (drop 2 process_argv) \<longrightarrow>
      ParsedArgs.token (parseArgs process_argv) = None) \<and>
   (ParsedArgs.baseUrl (parseArgs process_argv) = None \<longrightarrow>
      initConfig process_argv s = (Inl (Error ''Missing required argument: --base-url''), s)) \<and>
   (ParsedArgs.token (parseArgs process_argv) = None \<longrightarrow>
      initConfig process_argv s =
        (if ParsedArgs.baseUrl (parseArgs process_argv) \<in> {None, Some []}
         then (Inl (Error ''Missing required argument: --base-url''), s)
         else (Inl (Error ''Missing required argument: --token''), s))) \<and>
   (\<forall>e s'. initConfig process_argv s = (Inl e, s') \<longrightarrow>
      s' = s \<and>
      (config s = None \<longrightarrow>
         getConfig s' = Inl (Error ''Config not initialized. Call initConfig() first.''))) \<and>
   (\<forall>url tok. ParsedArgs.baseUrl (parseArgs process_argv) = Some url \<and> url \<noteq> [] \<and>
      ParsedArgs.token (parseArgs process_argv) = Some tok \<and> tok \<noteq> [] \<longrightarrow>
      (\<exists>r s'. initConfig process_argv s = (Inr r, s') \<and> r < length (heap s') \<and>
         Config.token (heap s' ! r) = tok))"
proof (intro conjI allI impI)
  assume "''--base-url'' \<notin> set (drop 2 process_argv)"
  then show "ParsedArgs.baseUrl (parseArgs process_argv) = None"
    by (rule parseArgs_baseUrl_absent)
next
  assume "''--token'' \<notin> set (drop 2 process_argv)"
  then show "ParsedArgs.token (parseArgs process_argv) = None"
    by (rule parseArgs_token_absent)
next
  assume "ParsedArgs.baseUrl (parseArgs process_argv) = None"
  then show "initConfig process_argv s = (Inl (Error ''Missing required argument: --base-url''), s)"
    by (simp add: initConfig_no_baseUrl)
next
  assume tok: "ParsedArgs.token (parseArgs process_argv) = None"
  show "initConfig process_argv s =
        (if ParsedArgs.baseUrl (parseArgs process_argv) \<in> {None, Some []}
         then (Inl (Error ''Missing required argument: --base-url''), s)
         else (Inl (Error ''Missing required argument: --token''), s))"
  proof (cases "ParsedArgs.baseUrl (parseArgs process_argv) \<in> {None, Some []}")
    case True
    then show ?thesis
      using initConfig_no_baseUrl [of process_argv s] by auto
  next
    case False
    then obtain url where "ParsedArgs.baseUrl (parseArgs process_argv) = Some url" "url \<noteq> []"
      by (cases "ParsedArgs.baseUrl (parseArgs process_argv)") auto
    then show ?thesis
      using False tok initConfig_no_token [of process_argv url s] by simp
  qed
next
  fix e s'
  assume "initConfig process_argv s = (Inl e, s')"
  then show "s' = s"
    by (rule initConfig_Inl_state)
next
  fix e s'
  assume "initConfig process_argv s = (Inl e, s')" and "config s = None"
  then show "getConfig s' = Inl (Error ''Config not initialized. Call initConfig() first.'')"
    using initConfig_Inl_state [of process_argv s e s'] getConfig_None [of s] by simp
next
  fix url tok
  assume "ParsedArgs.baseUrl (parseArgs process_argv) = Some url \<and> url \<noteq> [] \<and>
      ParsedArgs.token (parseArgs process_argv) = Some tok \<and> tok \<noteq> []"
  then show "\<exists>r s'. initConfig process_argv s = (Inr r, s') \<and> r < length (heap s') \<and>
         Config.token (heap s' ! r) = tok"
    using initConfig_success [of process_argv url tok s] by simp
qed

text \<open>
  No arguments at all; a base URL without a token; and a token of blanks and punctuation,
  which is accepted.
\<close>

theorem initConfig_missing_argument_witness:
  "initConfig [''node'', ''index.js''] initial_state =
     (Inl (Error ''Missing required argument: --base-url''), initial_state) \<and>
   initConfig [''node'', ''index.js'', ''--base-url'', ''example.com'', ''--enable-log''] initial_state =
     (Inl (Error ''Missing required argument: --token''), initial_state) \<and>
   getConfig initial_state = Inl (Error ''Config not initialized. Call initConfig() first.'') \<and>
   (\<exists>r s'. initConfig [''node'', ''index.js'', ''--base-url'', ''example.com'', ''--token'', '' ?!'']
       initial_state = (Inr r, s') \<and> r < length (heap s') \<and> Config.token (heap s' ! r) = '' ?!'')"
proof -
  have p2: "parseArgs [''node'', ''index.js'', ''--base-url'', ''example.com'', ''--enable-log''] =
      \<lparr>ParsedArgs.baseUrl = Some ''example.com'', token = None, enableLog = Some True\<rparr>"
    by (simp add: parseArgs_def parseArgs_loop.simps)
  have p3: "parseArgs [''node'', ''index.js'', ''--base-url'', ''example.com'', ''--token'', '' ?!''] =
      \<lparr>ParsedArgs.baseUrl = Some ''example.com'', token = Some '' ?!'', enableLog = None\<rparr>"
    by (simp add: parseArgs_def parseArgs_loop.simps)
  have c: "config initial_state = None"
    by (simp add: initial_state_def)
  note a = initConfig_missing_argument [of "[''node'', ''index.js'']" initial_state]
  note b = initConfig_missing_argument
    [of "[''node'', ''index.js'', ''--base-url'', ''example.com'', ''--enable-log'']" initial_state]
  note d = initConfig_missing_argument
    [of "[''node'', ''index.js'', ''--base-url'', ''example.com'', ''--token'', '' ?!'']" initial_state]
  have 1: "initConfig [''node'', ''index.js''] initial_state =
     (Inl (Error ''Missing required argument: --base-url''), initial_state)"
    using a by simp
  have 2: "initConfig [''node'', ''index.js'', ''--base-url'', ''example.com'', ''--enable-log'']
      initial_state = (Inl (Error ''Missing required argument: --token''), initial_state)"
    using b by (simp add: p2)
  have 3: "getConfig initial_state = Inl (Error ''Config not initialized. Call initConfig() first.'')"
    using a 1 c by blast
  have 4: "\<exists>r s'. initConfig [''node'', ''index.js'', ''--base-url'', ''example.com'', ''--token'', '' ?!'']
       initial_state = (Inr r, s') \<and> r < length (heap s') \<and> Config.token (heap s' ! r) = '' ?!''"
    using d by (simp add: p3)
  show ?thesis
    using 1 2 3 4 by blast
qed

text \<open>
  C9. An empty string as the value of \<open>--base-url\<close> makes \<open>initConfig\<close> throw the error
  that names \<open>--base-url\<close>, and the call ends exactly as one with no value for the flag.
  An empty string as the value of \<open>--token\<close> makes \<open>initConfig\<close> throw as well: the error
  names \<open>--token\<close> when the base URL is there and \<open>--base-url\<close> when it is not, and in
  both cases the call ends exactly as one with the same base URL and no value for
  \<open>--token\<close>.
\<close>

theorem initConfig_empty_value:
  "(ParsedArgs.baseUrl (parseArgs argv1) = Some [] \<longrightarrow>
      initConfig argv1 s = (Inl (Error ''Missing required argument: --base-url''), s) \<and>
      (ParsedArgs.baseUrl (parseArgs argv2) = None \<longrightarrow> initConfig argv1 s = initConfig argv2 s)) \<and>
   (ParsedArgs.token (parseArgs argv1) = Some [] \<longrightarrow>
      initConfig argv1 s =
        (if ParsedArgs.baseUrl (parseArgs argv1) \<in> {None, Some []}
         then (Inl (Error ''Missing required argument: --base-url''), s)
         else (Inl (Error ''Missing required argument: --token''), s)) \<and>
      (ParsedArgs.token (parseArgs argv2) = None \<and>
       ParsedArgs.baseUrl (parseArgs argv2) = ParsedArgs.baseUrl (parseArgs argv1) \<longrightarrow>
         initConfig argv1 s = initConfig argv2 s))"
proof (intro conjI impI)
  assume "ParsedArgs.baseUrl (parseArgs argv1) = Some []"
  then show "initConfig argv1 s = (Inl (Error ''Missing required argument: --base-url''), s)"
    by (simp add: initConfig_no_baseUrl)
next
  assume "ParsedArgs.baseUrl (parseArgs argv1) = Some []"
    and "ParsedArgs.baseUrl (parseArgs argv2) = None"
  then show "initConfig argv1 s = initConfig argv2 s"
    by (simp add: initConfig_no_baseUrl)
next
  assume tok: "ParsedArgs.token (parseArgs argv1) = Some []"
  show "initConfig argv1 s =
        (if ParsedArgs.baseUrl (parseArgs argv1) \<in> {None, Some []}
         then (Inl (Error ''Missing required argument: --base-url''), s)
         else (Inl (Error ''Missing required argument: --token''), s))"
  proof (cases "ParsedArgs.baseUrl (parseArgs argv1) \<in> {None, Some []}")
    case True
    then show ?thesis
      using initConfig_no_baseUrl [of argv1 s] by auto
  next
    case False
    then obtain url where "ParsedArgs.baseUrl (parseArgs argv1) = Some url" "url \<noteq> []"
      by (cases "ParsedArgs.baseUrl (parseArgs argv1)") auto
    then show ?thesis
      using False tok initConfig_no_token [of argv1 url s] by simp
  qed
next
  assume tok: "ParsedArgs.token (parseArgs argv1) = Some []"
    and other: "ParsedArgs.token (parseArgs argv2) = None \<and>
       ParsedArgs.baseUrl (parseArgs argv2) = ParsedArgs.baseUrl (parseArgs argv1)"
  show "initConfig argv1 s = initConfig argv2 s"
  proof (cases "ParsedArgs.baseUrl (parseArgs argv1) \<in> {None, Some []}")
    case True
    then show ?thesis
      using other initConfig_no_baseUrl [of argv1 s] initConfig_no_baseUrl [of argv2 s] by auto
  next
    case False
    then obtain url where "ParsedArgs.baseUrl (parseArgs argv1) = Some url" "url \<noteq> []"
      by (cases "ParsedArgs.baseUrl (parseArgs argv1)") auto
    then show ?thesis
      using tok other initConfig_no_token [of argv1 url s] initConfig_no_token [of argv2 url s]
      by simp
  qed
qed

text \<open>
  Each flag in turn with an empty value, next to the command line without the flag; and
  an empty token with no base URL at all, next to the empty command line.
\<close>

theorem initConfig_empty_value_witness:
  "initConfig [''node'', ''index.js'', ''--base-url'', '''', ''--token'', ''abc''] initial_state =
     (Inl (Error ''Missing required argument: --base-url''), initial_state) \<and>
   initConfig [''node'', ''index.js'', ''--base-url'', '''', ''--token'', ''abc''] initial_state =
     initConfig [''node'', ''index.js'', ''--token'', ''abc''] initial_state \<and>
   initConfig [''node'', ''index.js'', ''--token'', '''', ''--base-url'', ''example.com''] initial_state =
     (Inl (Error ''Missing required argument: --token''), initial_state) \<and>
   initConfig [''node'', ''index.js'', ''--token'', '''', ''--base-url'', ''example.com''] initial_state =
     initConfig [''node'', ''index.js'', ''--base-url'', ''example.com''] initial_state \<and>
   initConfig [''node'', ''index.js'', ''--token'', ''''] initial_state =
     (Inl (Error ''Missing required argument: --base-url''), initial_state) \<and>
   initConfig [''node'', ''index.js'', ''--token'', ''''] initial_state =
     initConfig [''node'', ''index.js''] initial_state"
proof -
  have p1: "parseArgs [''node'', ''index.js'', ''--base-url'', '''', ''--token'', ''abc''] =
      \<lparr>ParsedArgs.baseUrl = Some '''', token = Some ''abc'', enableLog = None\<rparr>"
    by (simp add: parseArgs_def parseArgs_loop.simps)
  have p2: "parseArgs [''node'', ''index.js'', ''--token'', ''abc''] =
      \<lparr>ParsedArgs.baseUrl = None, token = Some ''abc'', enableLog = None\<rparr>"
    by (simp add: parseArgs_def parseArgs_loop.simps)
  have p3: "parseArgs [''node'', ''index.js'', ''--token'', '''', ''--base-url'', ''example.com''] =
      \<lparr>ParsedArgs.baseUrl = Some ''example.com'', token = Some '''', enableLog = None\<rparr>"
    by (simp add: parseArgs_def parseArgs_loop.simps)
  have p4: "parseArgs [''node'', ''index.js'', ''--base-url'', ''example.com''] =
      \<lparr>ParsedArgs.baseUrl = Some ''example.com'', token = None, enableLog = None\<rparr>"
    by (simp add: parseArgs_def parseArgs_loop.simps)
  have p5: "parseArgs [''node'', ''index.js'', ''--token'', ''''] =
      \<lparr>ParsedArgs.baseUrl = None, token = Some '''', enableLog = None\<rparr>"
    by (simp add: parseArgs_def parseArgs_loop.simps)
  have p6: "parseArgs [''node'', ''index.js''] =
      \<lparr>ParsedArgs.baseUrl = None, token = None, enableLog = None\<rparr>"
    by (simp add: parseArgs_def parseArgs_loop.simps)
  have a: "initConfig [''node'', ''index.js'', ''--base-url'', '''', ''--token'', ''abc''] initial_state =
       (Inl (Error ''Missing required argument: --base-url''), initial_state) \<and>
     initConfig [''node'', ''index.js'', ''--base-url'', '''', ''--token'', ''abc''] initial_state =
       initConfig [''node'', ''index.js'', ''--token'', ''abc''] initial_state"
    using initConfig_empty_value
        [where ?argv1.0 = "[''node'', ''index.js'', ''--base-url'', '''', ''--token'', ''abc'']"
           and s = initial_state and ?argv2.0 = "[''node'', ''index.js'', ''--token'', ''abc'']"]
    unfolding p1 p2 by auto
  have b: "initConfig [''node'', ''index.js'', ''--token'', '''', ''--base-url'', ''example.com''] initial_state =
       (Inl (Error ''Missing required argument: --token''), initial_state) \<and>
     initConfig [''node'', ''index.js'', ''--token'', '''', ''--base-url'', ''example.com''] initial_state =
       initConfig [''node'', ''index.js'', ''--base-url'', ''example.com''] initial_state"
    using initConfig_empty_value
        [where ?argv1.0 = "[''node'', ''index.js'', ''--token'', '''', ''--base-url'', ''example.com'']"
           and s = initial_state
           and ?argv2.0 = "[''node'', ''index.js'', ''--base-url'', ''example.com'']"]
    unfolding p3 p4 by auto
  have c: "initConfig [''node'', ''index.js'', ''--token'', ''''] initial_state =
       (Inl (Error ''Missing required argument: --base-url''), initial_state) \<and>
     initConfig [''node'', ''index.js'', ''--token'', ''''] initial_state =
       initConfig [''node'', ''index.js''] initial_state"
    using initConfig_empty_value
        [where ?argv1.0 = "[''node'', ''index.js'', ''--token'', '''']"
           and s = initial_state and ?argv2.0 = "[''node'', ''index.js'']"]
    unfolding p5 p6 by auto
  show ?thesis
    using a b c by blast
qed

section \<open>The stored configuration\<close>

text \<open>
  C5. \<open>getConfig\<close> throws the error "Config not initialized" in the initial state and in
  every state where \<open>config\<close> is \<open>null\<close>, and a call of \<open>initConfig\<close> that throws does not
  change what it does. After a successful \<open>initConfig\<close>, \<open>getConfig\<close> returns the reference
  that \<open>initConfig\<close> returned: the same object, not a copy. \<open>getConfig\<close> reads the state and
  does not write it, so every later call returns that reference again.
\<close>

theorem getConfig_after_initConfig:
  "getConfig initial_state = Inl (Error ''Config not initialized. Call initConfig() first.'') \<and>
   (config s = None \<longrightarrow>
      getConfig s = Inl (Error ''Config not initialized. Call initConfig() first.'')) \<and>
   (\<forall>e s'. initConfig process_argv s = (Inl e, s') \<longrightarrow> getConfig s' = getConfig s) \<and>
   (\<forall>r s'. initConfig process_argv s = (Inr r, s') \<longrightarrow>
      getConfig s' = Inr r \<and> r < length (heap s'))"
proof (intro conjI allI impI)
  show "getConfig initial_state = Inl (Error ''Config not initialized. Call initConfig() first.'')"
    by (simp add: getConfig_def initial_state_def)
next
  assume "config s = None"
  then show "getConfig s = Inl (Error ''Config not initialized. Call initConfig() first.'')"
    by (rule getConfig_None)
next
  fix e s'
  assume "initConfig process_argv s = (Inl e, s')"
  then show "getConfig s' = getConfig s"
    using initConfig_Inl_state [of process_argv s e s'] by simp
next
  fix r s'
  assume "initConfig process_argv s = (Inr r, s')"
  then show "getConfig s' = Inr r"
    using initConfig_Inr_state [of process_argv s r s'] by (simp add: getConfig_def)
next
  fix r s'
  assume "initConfig process_argv s = (Inr r, s')"
  then show "r < length (heap s')"
    using initConfig_Inr_state [of process_argv s r s'] by simp
qed

text \<open>
  A failed call followed by \<open>getConfig\<close>, and a successful one followed by \<open>getConfig\<close>.
\<close>

theorem getConfig_after_initConfig_witness:
  "getConfig initial_state = Inl (Error ''Config not initialized. Call initConfig() first.'') \<and>
   getConfig (snd (initConfig [''node'', ''index.js'', ''--token'', ''abc''] initial_state)) =
     Inl (Error ''Config not initialized. Call initConfig() first.'') \<and>
   fst (initConfig [''node'', ''index.js'', ''--base-url'', ''example.com'', ''--token'', ''abc'']
          initial_state) = Inr 0 \<and>
   getConfig (snd (initConfig [''node'', ''index.js'', ''--base-url'', ''example.com'', ''--token'', ''abc'']
          initial_state)) = Inr 0"
proof -
  let ?bad = "[''node'', ''index.js'', ''--token'', ''abc'']"
  let ?good = "[''node'', ''index.js'', ''--base-url'', ''example.com'', ''--token'', ''abc'']"
  have pb: "parseArgs ?bad = \<lparr>ParsedArgs.baseUrl = None, token = Some ''abc'', enableLog = None\<rparr>"
    by (simp add: parseArgs_def parseArgs_loop.simps)
  have pg: "parseArgs ?good =
      \<lparr>ParsedArgs.baseUrl = Some ''example.com'', token = Some ''abc'', enableLog = None\<rparr>"
    by (simp add: parseArgs_def parseArgs_loop.simps)
  have bad: "initConfig ?bad initial_state =
      (Inl (Error ''Missing required argument: --base-url''), snd (initConfig ?bad initial_state))"
    by (simp add: initConfig_def pb)
  have good_fst: "fst (initConfig ?good initial_state) = Inr 0"
    by (simp add: initConfig_def pg Let_def initial_state_def)
  then have good: "initConfig ?good initial_state = (Inr 0, snd (initConfig ?good initial_state))"
    by (simp add: prod_eq_iff)
  show ?thesis
    using getConfig_after_initConfig [of initial_state ?bad] bad
      getConfig_after_initConfig [of initial_state ?good] good good_fst
    by metis
qed

text \<open>
  C10. After a successful \<open>initConfig\<close>, a second call parses and checks its own command
  line again. It throws when that command line lacks a value for \<open>--base-url\<close> or for
  \<open>--token\<close>, with the error that names the flag, and then leaves the state as it was. In
  every other case it succeeds: it allocates a new object, different from the first, with
  the base URL and the token of the second command line, and stores its reference in
  \<open>config\<close>, so \<open>getConfig\<close> then returns the new reference and no longer the first one.
  The first object itself is not touched. Whether the call throws, and what the new object
  holds, is what a fresh process with the same command line would give.
\<close>

theorem initConfig_again:
  assumes "initConfig argv1 s0 = (Inr r1, s1)"
  shows "getConfig s1 = Inr r1 \<and>
     (ParsedArgs.baseUrl (parseArgs argv2) \<in> {None, Some []} \<longrightarrow>
        initConfig argv2 s1 = (Inl (Error ''Missing required argument: --base-url''), s1)) \<and>
     (ParsedArgs.baseUrl (parseArgs argv2) \<notin> {None, Some []} \<and>
      ParsedArgs.token (parseArgs argv2) \<in> {None, Some []} \<longrightarrow>
        initConfig argv2 s1 = (Inl (Error ''Missing required argument: --token''), s1)) \<and>
     (\<forall>v t. ParsedArgs.baseUrl (parseArgs argv2) = Some v \<and> v \<noteq> [] \<and>
           ParsedArgs.token (parseArgs argv2) = Some t \<and> t \<noteq> [] \<longrightarrow>
        (\<exists>r2 s2. initConfig argv2 s1 = (Inr r2, s2) \<and>
           r2 = length (heap s1) \<and> r2 \<noteq> r1 \<and> r2 < length (heap s2) \<and>
           config s2 = Some r2 \<and> getConfig s2 = Inr r2 \<and> getConfig s2 \<noteq> getConfig s1 \<and>
           heap s2 ! r1 = heap s1 ! r1 \<and>
           heap s2 ! r2 =
             \<lparr>Config.baseUrl =
                (let u = (if prefix ''http://'' v \<or> prefix ''https://'' v then v
                          else ''https://'' @ v)
                 in if suffix ''/'' u then butlast u else u),
              token = t,
              batchSize = 10,
              maxLinesPerBlob = 800,
              textExtensions = DEFAULT_TEXT_EXTENSIONS,
              excludePatterns = DEFAULT_EXCLUDE_PATTERNS,
              enableLog = (ParsedArgs.enableLog (parseArgs argv2) = Some True)\<rparr>)) \<and>
     (\<forall>e. fst (initConfig argv2 s1) = Inl e \<longleftrightarrow> fst (initConfig argv2 initial_state) = Inl e) \<and>
     (\<forall>r2 s2. initConfig argv2 s1 = (Inr r2, s2) \<longrightarrow>
        r2 = length (heap s1) \<and> r2 \<noteq> r1 \<and> r2 < length (heap s2) \<and>
        config s2 = Some r2 \<and> getConfig s2 = Inr r2 \<and> getConfig s1 = Inr r1 \<and>
        heap s2 ! r1 = heap s1 ! r1 \<and>
        (\<forall>q t. initConfig argv2 initial_state = (Inr q, t) \<longrightarrow> heap s2 ! r2 = heap t ! q))"
proof -
  note st1 = initConfig_Inr_state [OF assms]
  have get1: "getConfig s1 = Inr r1"
    using st1 by (simp add: getConfig_def)
  have keep: "heap s2 ! r1 = heap s1 ! r1" "r2 = length (heap s1)" "r2 \<noteq> r1"
      "r2 < length (heap s2)" "config s2 = Some r2" "getConfig s2 = Inr r2"
    if second: "initConfig argv2 s1 = (Inr r2, s2)" for r2 s2
  proof -
    note st2 = initConfig_Inr_state [OF second]
    show "r2 = length (heap s1)" "r2 \<noteq> r1" "r2 < length (heap s2)" "config s2 = Some r2"
      using st1 st2 by simp_all
    show "getConfig s2 = Inr r2"
      using st2 by (simp add: getConfig_def)
    have "heap s1 ! r1 = take (length (heap s1)) (heap s2) ! r1"
      using st2 by simp
    also have "\<dots> = heap s2 ! r1"
      using st1 by simp
    finally show "heap s2 ! r1 = heap s1 ! r1"
      by simp
  qed
  have no_url: "initConfig argv2 s1 = (Inl (Error ''Missing required argument: --base-url''), s1)"
    if "ParsedArgs.baseUrl (parseArgs argv2) \<in> {None, Some []}"
    using that initConfig_no_baseUrl [of argv2 s1] by auto
  have no_tok: "initConfig argv2 s1 = (Inl (Error ''Missing required argument: --token''), s1)"
    if "ParsedArgs.baseUrl (parseArgs argv2) \<notin> {None, Some []} \<and>
        ParsedArgs.token (parseArgs argv2) \<in> {None, Some []}"
  proof -
    from that obtain url where "ParsedArgs.baseUrl (parseArgs argv2) = Some url" "url \<noteq> []"
      by (cases "ParsedArgs.baseUrl (parseArgs argv2)") auto
    then show ?thesis
      using that initConfig_no_token [of argv2 url s1] by auto
  qed
  have good: "\<exists>r2 s2. initConfig argv2 s1 = (Inr r2, s2) \<and>
           r2 = length (heap s1) \<and> r2 \<noteq> r1 \<and> r2 < length (heap s2) \<and>
           config s2 = Some r2 \<and> getConfig s2 = Inr r2 \<and> getConfig s2 \<noteq> getConfig s1 \<and>
           heap s2 ! r1 = heap s1 ! r1 \<and>
           heap s2 ! r2 =
             \<lparr>Config.baseUrl =
                (let u = (if prefix ''http://'' v \<or> prefix ''https://'' v then v
                          else ''https://'' @ v)
                 in if suffix ''/'' u then butlast u else u),
              token = t,
              batchSize = 10,
              maxLinesPerBlob = 800,
              textExtensions = DEFAULT_TEXT_EXTENSIONS,
              excludePatterns = DEFAULT_EXCLUDE_PATTERNS,
              enableLog = (ParsedArgs.enableLog (parseArgs argv2) = Some True)\<rparr>"
    if p: "ParsedArgs.baseUrl (parseArgs argv2) = Some v \<and> v \<noteq> [] \<and>
           ParsedArgs.token (parseArgs argv2) = Some t \<and> t \<noteq> []" for v t
  proof -
    from p have p': "ParsedArgs.baseUrl (parseArgs argv2) = Some v" "v \<noteq> []"
        "ParsedArgs.token (parseArgs argv2) = Some t" "t \<noteq> []"
      by simp_all
    note run = initConfig_success [OF p', of s1]
    let ?r2 = "length (heap s1)"
    obtain s2 where s2: "initConfig argv2 s1 = (Inr ?r2, s2)"
      using run by simp
    have obj: "heap s2 ! ?r2 =
             \<lparr>Config.baseUrl =
                (let u = (if prefix ''http://'' v \<or> prefix ''https://'' v then v
                          else ''https://'' @ v)
                 in if suffix ''/'' u then butlast u else u),
              token = t,
              batchSize = 10,
              maxLinesPerBlob = 800,
              textExtensions = DEFAULT_TEXT_EXTENSIONS,
              excludePatterns = DEFAULT_EXCLUDE_PATTERNS,
              enableLog = (ParsedArgs.enableLog (parseArgs argv2) = Some True)\<rparr>"
      using run s2
      by (cases "ParsedArgs.enableLog (parseArgs argv2)")
         (auto simp: startsWith_prefix replace_trailing_slash_suffix Let_def)
    have "getConfig s2 \<noteq> getConfig s1"
      using keep(3,6) [OF s2] get1 by simp
    then show ?thesis
      using s2 keep [OF s2] obj by blast
  qed
  have indep: "fst (initConfig argv2 s1) = Inl e \<longleftrightarrow> fst (initConfig argv2 initial_state) = Inl e"
    for e
    by (rule initConfig_result_independent)
  have fresh: "heap s2 ! r2 = heap t ! q"
    if "initConfig argv2 s1 = (Inr r2, s2)" "initConfig argv2 initial_state = (Inr q, t)"
    for r2 s2 q t
    using that by (rule initConfig_object_independent)
  show ?thesis
    using get1 no_url no_tok good indep keep fresh by blast
qed

text \<open>
  After a first call for the host \<open>a.example\<close>: a call with no arguments and a call
  without a token both throw and change nothing; a call for the host \<open>b.example\<close> with
  the token \<open>t2\<close> stores a second object with that host and that token, next to the first.
\<close>

theorem initConfig_again_witness:
  "fst (initConfig [''node'', ''index.js'', ''--base-url'', ''a.example'', ''--token'', ''t1''] initial_state)
     = Inr 0 \<and>
   getConfig (snd (initConfig [''node'', ''index.js'', ''--base-url'', ''a.example'', ''--token'', ''t1'']
             initial_state)) = Inr 0 \<and>
   initConfig [''node'', ''index.js'']
       (snd (initConfig [''node'', ''index.js'', ''--base-url'', ''a.example'', ''--token'', ''t1'']
          initial_state)) =
     (Inl (Error ''Missing required argument: --base-url''),
      snd (initConfig [''node'', ''index.js'', ''--base-url'', ''a.example'', ''--token'', ''t1'']
          initial_state)) \<and>
   initConfig [''node'', ''index.js'', ''--base-url'', ''b.example'']
       (snd (initConfig [''node'', ''index.js'', ''--base-url'', ''a.example'', ''--token'', ''t1'']
          initial_state)) =
     (Inl (Error ''Missing required argument: --token''),
      snd (initConfig [''node'', ''index.js'', ''--base-url'', ''a.example'', ''--token'', ''t1'']
          initial_state)) \<and>
   fst (initConfig [''node'', ''index.js'', ''--base-url'', ''b.example/'', ''--token'', ''t2'']
          (snd (initConfig [''node'', ''index.js'', ''--base-url'', ''a.example'', ''--token'', ''t1'']
             initial_state))) = Inr 1 \<and>
   getConfig (snd (initConfig [''node'', ''index.js'', ''--base-url'', ''b.example/'', ''--token'', ''t2'']
          (snd (initConfig [''node'', ''index.js'', ''--base-url'', ''a.example'', ''--token'', ''t1'']
             initial_state)))) = Inr 1 \<and>
   Config.baseUrl (heap (snd (initConfig
          [''node'', ''index.js'', ''--base-url'', ''b.example/'', ''--token'', ''t2'']
          (snd (initConfig [''node'', ''index.js'', ''--base-url'', ''a.example'', ''--token'', ''t1'']
             initial_state)))) ! 1) = ''https://b.example'' \<and>
   Config.token (heap (snd (initConfig
          [''node'', ''index.js'', ''--base-url'', ''b.example/'', ''--token'', ''t2'']
          (snd (initConfig [''node'', ''index.js'', ''--base-url'', ''a.example'', ''--token'', ''t1'']
             initial_state)))) ! 1) = ''t2'' \<and>
   Config.baseUrl (heap (snd (initConfig
          [''node'', ''index.js'', ''--base-url'', ''b.example/'', ''--token'', ''t2'']
          (snd (initConfig [''node'', ''index.js'', ''--base-url'', ''a.example'', ''--token'', ''t1'']
             initial_state)))) ! 0) = ''https://a.example''"
proof -
  let ?a = "[''node'', ''index.js'', ''--base-url'', ''a.example'', ''--token'', ''t1'']"
  let ?b = "[''node'', ''index.js'', ''--base-url'', ''b.example/'', ''--token'', ''t2'']"
  let ?s1 = "snd (initConfig ?a initial_state)"
  have pa: "parseArgs ?a =
      \<lparr>ParsedArgs.baseUrl = Some ''a.example'', token = Some ''t1'', enableLog = None\<rparr>"
    by (simp add: parseArgs_def parseArgs_loop.simps)
  have pb: "parseArgs ?b =
      \<lparr>ParsedArgs.baseUrl = Some ''b.example/'', token = Some ''t2'', enableLog = None\<rparr>"
    by (simp add: parseArgs_def parseArgs_loop.simps)
  have pn: "parseArgs [''node'', ''index.js''] =
      \<lparr>ParsedArgs.baseUrl = None, token = None, enableLog = None\<rparr>"
    by (simp add: parseArgs_def parseArgs_loop.simps)
  have pu: "parseArgs [''node'', ''index.js'', ''--base-url'', ''b.example''] =
      \<lparr>ParsedArgs.baseUrl = Some ''b.example'', token = None, enableLog = None\<rparr>"
    by (simp add: parseArgs_def parseArgs_loop.simps)
  have fa: "fst (initConfig ?a initial_state) = Inr 0"
    by (simp add: initConfig_def pa Let_def initial_state_def)
  then have first: "initConfig ?a initial_state = (Inr 0, ?s1)"
    by (simp add: prod_eq_iff)
  have len: "length (heap ?s1) = 1"
    by (simp add: initConfig_def pa Let_def initial_state_def)
  have old: "Config.baseUrl (heap ?s1 ! 0) = ''https://a.example''"
    by (simp add: initConfig_def pa Let_def initial_state_def startsWith_def
        replace_trailing_slash_def)
  note n = initConfig_again [OF first, of "[''node'', ''index.js'']"]
  note u = initConfig_again [OF first, of "[''node'', ''index.js'', ''--base-url'', ''b.example'']"]
  note b = initConfig_again [OF first, of ?b]
  have g1: "getConfig ?s1 = Inr 0"
    using n [THEN conjunct1] .
  have e1: "initConfig [''node'', ''index.js''] ?s1 =
      (Inl (Error ''Missing required argument: --base-url''), ?s1)"
    using n [THEN conjunct2, THEN conjunct1] by (simp add: pn)
  have e2: "initConfig [''node'', ''index.js'', ''--base-url'', ''b.example''] ?s1 =
      (Inl (Error ''Missing required argument: --token''), ?s1)"
    using u [THEN conjunct2, THEN conjunct2, THEN conjunct1] by (simp add: pu)
  have "\<exists>r2 s2. initConfig ?b ?s1 = (Inr r2, s2) \<and> r2 = length (heap ?s1) \<and>
      getConfig s2 = Inr r2 \<and> heap s2 ! 0 = heap ?s1 ! 0 \<and>
      heap s2 ! r2 =
       \<lparr>Config.baseUrl = ''https://b.example'', token = ''t2'', batchSize = 10,
        maxLinesPerBlob = 800, textExtensions = DEFAULT_TEXT_EXTENSIONS,
        excludePatterns = DEFAULT_EXCLUDE_PATTERNS, enableLog = False\<rparr>"
    using b [THEN conjunct2, THEN conjunct2, THEN conjunct2, THEN conjunct1, rule_format,
        of "''b.example/''" "''t2''"]
    by (simp add: pb suffix_to_prefix) blast
  then obtain r2 s2 where run: "initConfig ?b ?s1 = (Inr r2, s2)"
    and r2: "r2 = length (heap ?s1)" and g2: "getConfig s2 = Inr r2"
    and keep: "heap s2 ! 0 = heap ?s1 ! 0"
    and obj: "heap s2 ! r2 =
       \<lparr>Config.baseUrl = ''https://b.example'', token = ''t2'', batchSize = 10,
        maxLinesPerBlob = 800, textExtensions = DEFAULT_TEXT_EXTENSIONS,
        excludePatterns = DEFAULT_EXCLUDE_PATTERNS, enableLog = False\<rparr>"
    by blast
  have s2: "snd (initConfig ?b ?s1) = s2" and f2: "fst (initConfig ?b ?s1) = Inr 1"
    using run r2 len by simp_all
  have o1: "heap s2 ! 1 =
       \<lparr>Config.baseUrl = ''https://b.example'', token = ''t2'', batchSize = 10,
        maxLinesPerBlob = 800, textExtensions = DEFAULT_TEXT_EXTENSIONS,
        excludePatterns = DEFAULT_EXCLUDE_PATTERNS, enableLog = False\<rparr>"
    using obj r2 len by simp
  have g2': "getConfig s2 = Inr 1"
    using g2 r2 len by simp
  have k: "Config.baseUrl (heap s2 ! 0) = ''https://a.example''"
    using keep old by simp
  have t1: "Config.baseUrl (heap s2 ! 1) = ''https://b.example''" "Config.token (heap s2 ! 1) = ''t2''"
    unfolding o1 by simp_all
  show ?thesis
    unfolding s2 f2 using fa g1 e1 e2 g2' k t1 by blast
qed

section \<open>Sending a log message\<close>

text \<open>
  C7. For every level, message and state, \<open>sendMcpLog\<close> returns and does not throw, and
  it leaves \<open>mcpServer\<close> as it was. With no server bound it leaves no promise behind. With
  a server bound it leaves one promise behind, the one made by \<open>catch\<close>, and that promise is
  never rejected: when the server's own promise is rejected, it is fulfilled.
\<close>

theorem sendMcpLog_never_throws:
  "fst (sendMcpLog lvl message mcpServer) = Inr () \<and>
   snd (snd (sendMcpLog lvl message mcpServer)) = mcpServer \<and>
   (mcpServer = None \<longrightarrow> fst (snd (sendMcpLog lvl message mcpServer)) = None) \<and>
   (\<forall>server. mcpServer = Some server \<longrightarrow>
      (\<exists>p. fst (snd (sendMcpLog lvl message mcpServer)) = Some p \<and>
           (\<forall>e. p \<noteq> Rejected e) \<and>
           (\<forall>e. sendLoggingMessage server \<lparr>level = lvl, data = message\<rparr> = Rejected e \<longrightarrow>
                p = Fulfilled ())))"
  by (cases mcpServer)
     (auto simp: sendMcpLog_def promise_catch_def split: Promise.splits)

text \<open>
  No server bound; and a server, bound by \<open>initMcpLogger\<close>, whose promise is always
  rejected.
\<close>

theorem sendMcpLog_never_throws_witness:
  "sendMcpLog error ''upload failed'' None = (Inr (), None, None) \<and>
   fst (sendMcpLog warning ''slow'' (initMcpLogger
         \<lparr>sendLoggingMessage = (\<lambda>params. Rejected (Error ''Not connected''))\<rparr> None)) = Inr () \<and>
   fst (snd (sendMcpLog warning ''slow'' (initMcpLogger
         \<lparr>sendLoggingMessage = (\<lambda>params. Rejected (Error ''Not connected''))\<rparr> None)))
     = Some (Fulfilled ())"
proof -
  let ?server = "\<lparr>sendLoggingMessage = (\<lambda>params. Rejected (Error ''Not connected''))\<rparr>"
  have b: "initMcpLogger ?server None = Some ?server"
    by (simp add: initMcpLogger_def)
  have "sendMcpLog error ''upload failed'' None = (Inr (), None, None)"
    using sendMcpLog_never_throws [of error "''upload failed''" None]
    by (simp add: prod_eq_iff)
  moreover have "fst (sendMcpLog warning ''slow'' (Some ?server)) = Inr () \<and>
      fst (snd (sendMcpLog warning ''slow'' (Some ?server))) = Some (Fulfilled ())"
    using sendMcpLog_never_throws [of warning "''slow''" "Some ?server"]
    by auto
  ultimately show ?thesis
    unfolding b by blast
qed

end
